theory Spec2Isabelle
  imports Main
begin

section \<open>Data model of the game engine (src/game_engine.py)\<close>

text \<open>
  The engine keeps one dictionary \<^verbatim>\<open>self.game_state\<close> with the two fixed keys
  \<^verbatim>\<open>'p1'\<close> and \<^verbatim>\<open>'p2'\<close>; each entry is a dictionary with the ten attributes that
  \<^verbatim>\<open>__init__\<close> (lines 83-108) creates. No operation of the engine adds or removes a
  key, so a player is a record of the ten attributes and the game state a record of the
  two players. Attribute values carry the types of the schema in the module's docstring
  (lines 33-74) and of \<^verbatim>\<open>__init__\<close>: Python's unbounded integers are \<^typ>\<open>int\<close>,
  flags are \<^typ>\<open>bool\<close>.
\<close>

record player =
  hp :: int
  bullets :: int
  bombs :: int
  shield_hp :: int
  deaths :: int
  shields :: int
  opponent_visible :: bool
  opponent_in_rain_bomb :: int
  disconnected :: bool
  login :: bool

record game_state =
  p1 :: player
  p2 :: player

text \<open>Lines 85-94 and 97-106: the attributes both players start with.\<close>

definition init_player :: player where
  "init_player =
     \<lparr>hp = 100, bullets = 6, bombs = 2, shield_hp = 0, deaths = 0, shields = 3,
      opponent_visible = False, opponent_in_rain_bomb = 0, disconnected = False,
      login = False\<rparr>"

definition init_game_state :: game_state where
  "init_game_state = \<lparr>p1 = init_player, p2 = init_player\<rparr>"

text \<open>
  The only exception the modelled code can raise on a well-typed state is the
  \<^verbatim>\<open>KeyError\<close> of a dictionary subscript with a missing key.
\<close>

datatype error = KeyError

text \<open>
  \<^verbatim>\<open>self.game_state[key]\<close>: a subscript read of the two-key dictionary. The
  players are mutated in place through the references these reads return; in the model
  the mutated player is written back with \<open>gs_set\<close>.
\<close>

definition gs_get :: "game_state \<Rightarrow> string \<Rightarrow> error + player" where
  "gs_get gs key =
     (if key = ''p1'' then Inr (p1 gs)
      else if key = ''p2'' then Inr (p2 gs)
      else Inl KeyError)"

definition gs_set :: "game_state \<Rightarrow> string \<Rightarrow> player \<Rightarrow> game_state" where
  "gs_set gs key v =
     (if key = ''p1'' then gs\<lparr>p1 := v\<rparr>
      else if key = ''p2'' then gs\<lparr>p2 := v\<rparr>
      else gs)"

subsection \<open>Inbound events\<close>

text \<open>
  A partial player of an incoming \<^verbatim>\<open>game_state\<close>: a dictionary holding any subset
  of the attributes. An attribute that is absent is \<open>None\<close>.
\<close>

record player_update =
  upd_hp :: "int option"
  upd_bullets :: "int option"
  upd_bombs :: "int option"
  upd_shield_hp :: "int option"
  upd_deaths :: "int option"
  upd_shields :: "int option"
  upd_opponent_visible :: "bool option"
  upd_opponent_in_rain_bomb :: "int option"
  upd_disconnected :: "bool option"
  upd_login :: "bool option"

definition no_update :: player_update where
  "no_update =
     \<lparr>upd_hp = None, upd_bullets = None, upd_bombs = None, upd_shield_hp = None,
      upd_deaths = None, upd_shields = None, upd_opponent_visible = None,
      upd_opponent_in_rain_bomb = None, upd_disconnected = None, upd_login = None\<rparr>"

text \<open>
  The \<^verbatim>\<open>player_id\<close> of an event is whatever the JSON body holds; the engine only
  formats it into the player key with an f-string (line 141). \<open>IdNone\<close> is the value
  \<^verbatim>\<open>data.get('player_id')\<close> gives when the key is absent.
\<close>

datatype player_id = IdInt int | IdStr string | IdNone

text \<open>
  The decoded event \<^verbatim>\<open>data\<close> of \<^verbatim>\<open>process_message\<close> (lines 222-226), each field
  with the default that \<^verbatim>\<open>data.get\<close> supplies: \<^verbatim>\<open>action\<close>, \<^verbatim>\<open>update\<close> and
  \<^verbatim>\<open>hit\<close> default to \<open>False\<close>, \<^verbatim>\<open>action_type\<close> and \<^verbatim>\<open>player_id\<close> to
  \<^verbatim>\<open>None\<close>, \<^verbatim>\<open>game_state\<close> to the empty dictionary. The fields carry the prefix
  \<open>ev_\<close> to keep the parameter names of \<^verbatim>\<open>perform_action\<close> free.
\<close>

record event =
  ev_update :: bool
  ev_action :: bool
  ev_player_id :: player_id
  ev_action_type :: "string option"
  ev_hit :: bool
  ev_game_state :: "string \<rightharpoonup> player_update"

section \<open>State merge (lines 133-137)\<close>

text \<open>
  \<^verbatim>\<open>dict.update\<close> on a player: every attribute present in the incoming dictionary
  overwrites the stored one.
\<close>

definition dict_update :: "player \<Rightarrow> player_update \<Rightarrow> player" where
  "dict_update pl u =
     \<lparr>hp = (case upd_hp u of None \<Rightarrow> hp pl | Some v \<Rightarrow> v),
      bullets = (case upd_bullets u of None \<Rightarrow> bullets pl | Some v \<Rightarrow> v),
      bombs = (case upd_bombs u of None \<Rightarrow> bombs pl | Some v \<Rightarrow> v),
      shield_hp = (case upd_shield_hp u of None \<Rightarrow> shield_hp pl | Some v \<Rightarrow> v),
      deaths = (case upd_deaths u of None \<Rightarrow> deaths pl | Some v \<Rightarrow> v),
      shields = (case upd_shields u of None \<Rightarrow> shields pl | Some v \<Rightarrow> v),
      opponent_visible =
        (case upd_opponent_visible u of None \<Rightarrow> opponent_visible pl | Some v \<Rightarrow> v),
      opponent_in_rain_bomb =
        (case upd_opponent_in_rain_bomb u of None \<Rightarrow> opponent_in_rain_bomb pl | Some v \<Rightarrow> v),
      disconnected = (case upd_disconnected u of None \<Rightarrow> disconnected pl | Some v \<Rightarrow> v),
      login = (case upd_login u of None \<Rightarrow> login pl | Some v \<Rightarrow> v)\<rparr>"

text \<open>One round of the loop of line 135, for one \<^verbatim>\<open>player_key\<close>.\<close>

definition merge_key :: "(string \<rightharpoonup> player_update) \<Rightarrow> string \<Rightarrow> game_state \<Rightarrow> game_state" where
  "merge_key incoming_game_state player_key gs =
     (case incoming_game_state player_key of
        None \<Rightarrow> gs
      | Some u \<Rightarrow>
          (case gs_get gs player_key of
             Inl e \<Rightarrow> gs
           | Inr pl \<Rightarrow> gs_set gs player_key (dict_update pl u)))"

definition update_internal_game_state ::
    "game_state \<Rightarrow> (string \<rightharpoonup> player_update) \<Rightarrow> game_state" where
  "update_internal_game_state gs incoming_game_state =
     fold (merge_key incoming_game_state) [''p1'', ''p2''] gs"

section \<open>Action resolution (lines 139-214)\<close>

subsection \<open>The player key (line 141)\<close>

text \<open>Python's \<^verbatim>\<open>str\<close> of an integer, as the f-string formats it.\<close>

definition digit_char :: "nat \<Rightarrow> char" where
  "digit_char d = ''0123456789'' ! d"

fun str_nat :: "nat \<Rightarrow> string" where
  "str_nat n = (if n < 10 then [digit_char n] else str_nat (n div 10) @ [digit_char (n mod 10)])"

declare str_nat.simps [simp del]

definition str_int :: "int \<Rightarrow> string" where
  "str_int i = (if i < 0 then CHR ''-'' # str_nat (nat (- i)) else str_nat (nat i))"

fun py_format :: "player_id \<Rightarrow> string" where
  "py_format (IdInt i) = str_int i"
| "py_format (IdStr s) = s"
| "py_format IdNone = ''None''"

definition player_key_of :: "player_id \<Rightarrow> string" where
  "player_key_of player_id = ''p'' @ py_format player_id"

text \<open>Line 142.\<close>

definition opponent_key_of :: "string \<Rightarrow> string" where
  "opponent_key_of player_key = (if player_key = ''p2'' then ''p1'' else ''p2'')"

subsection \<open>The stages of the resolution\<close>

text \<open>
  Lines 156-188: the branch on \<^verbatim>\<open>action_type\<close>. It changes the acting player only
  and sets the base value of \<^verbatim>\<open>damage_to_opponent\<close>, which starts at 0 (line 153).
  \<^verbatim>\<open>opponent_visible\<close> was read from the player at line 148; no branch changes that
  attribute, so reading it from the argument is the same value.
\<close>

definition handle_action :: "player \<Rightarrow> string option \<Rightarrow> bool \<Rightarrow> player \<times> int" where
  "handle_action player action_type hit =
     (if action_type = Some ''gun'' then
        (if bullets player > 0
         then (player\<lparr>bullets := bullets player - 1\<rparr>, if hit then 5 else 0)
         else (player, 0))
      else if action_type = Some ''bomb'' then
        (if bombs player > 0 \<and> opponent_visible player
         then (player\<lparr>bombs := bombs player - 1\<rparr>, 5)
         else (player, 0))
      else if action_type = Some ''reload'' then
        (if bullets player = 0 then (player\<lparr>bullets := 6\<rparr>, 0) else (player, 0))
      else if action_type = Some ''shield'' then
        (if shields player > 0 \<and> shield_hp player = 0
         then (player\<lparr>shields := shields player - 1, shield_hp := 30\<rparr>, 0)
         else (player, 0))
      else if action_type = Some ''logout'' then (player\<lparr>login := False\<rparr>, 0)
      else if action_type \<in> set [Some ''basket'', Some ''volley'', Some ''soccer'', Some ''bowl''] then
        (player, if opponent_visible player then 10 else 0)
      else (player, 0))"

text \<open>Lines 189-191: the rain damage, from the values read at lines 148-149.\<close>

definition rain_damage :: "player \<Rightarrow> int \<Rightarrow> int" where
  "rain_damage player damage_to_opponent =
     (if opponent_in_rain_bomb player > 0 \<and> opponent_visible player
      then damage_to_opponent + 5 * opponent_in_rain_bomb player
      else damage_to_opponent)"

text \<open>The value of \<^verbatim>\<open>damage_to_opponent\<close> when line 193 is reached.\<close>

definition total_damage :: "player \<Rightarrow> string option \<Rightarrow> bool \<Rightarrow> int" where
  "total_damage player action_type hit =
     rain_damage player (snd (handle_action player action_type hit))"

text \<open>
  Lines 193-201: the opponent's shield. The result is the opponent, the remaining
  \<^verbatim>\<open>damage_to_opponent\<close> and \<^verbatim>\<open>damage_to_shield\<close> (0 from line 154 unless line 196
  assigns it).
\<close>

definition apply_shield :: "player \<Rightarrow> int \<Rightarrow> player \<times> int \<times> int" where
  "apply_shield opponent damage_to_opponent =
     (if shield_hp opponent > 0 then
        (if damage_to_opponent > 0 then
           (let damage_to_shield = min damage_to_opponent (shield_hp opponent)
            in (opponent\<lparr>shield_hp := shield_hp opponent - damage_to_shield\<rparr>,
                damage_to_opponent - damage_to_shield, damage_to_shield))
         else (opponent, damage_to_opponent, 0))
      else (opponent\<lparr>shield_hp := 0\<rparr>, damage_to_opponent, 0))"

text \<open>Lines 208-213: the rebirth of a player whose hp is used up.\<close>

definition respawn :: "player \<Rightarrow> player" where
  "respawn opponent =
     opponent\<lparr>hp := 100, deaths := deaths opponent + 1, shields := 3, shield_hp := 0,
       bullets := 6, bombs := 2\<rparr>"

text \<open>Lines 203-214: the remaining damage goes to the opponent's hp.\<close>

definition apply_hp :: "player \<Rightarrow> int \<Rightarrow> player" where
  "apply_hp opponent damage_to_opponent =
     (if damage_to_opponent > 0 then
        (let opponent' = opponent\<lparr>hp := hp opponent - damage_to_opponent\<rparr>
         in if hp opponent' \<le> 0 then respawn opponent' else opponent')
      else opponent)"

text \<open>
  Lines 193-214 together: what a \<^verbatim>\<open>damage_to_opponent\<close> of the given size does to
  the opponent, the shield first and the hp with what remains.
\<close>

definition resolve_opponent :: "player \<Rightarrow> int \<Rightarrow> player" where
  "resolve_opponent opponent damage_to_opponent =
     apply_hp (fst (apply_shield opponent damage_to_opponent))
       (fst (snd (apply_shield opponent damage_to_opponent)))"

subsection \<open>\<^verbatim>\<open>perform_action\<close>\<close>

text \<open>
  The two subscripts of lines 144-145 raise \<^verbatim>\<open>KeyError\<close> before anything is
  mutated. \<^verbatim>\<open>data.get('hit', False)\<close> is the field \<open>ev_hit\<close>.
\<close>

definition perform_action ::
    "game_state \<Rightarrow> player_id \<Rightarrow> string option \<Rightarrow> event \<Rightarrow> error + game_state" where
  "perform_action gs player_id action_type data =
     (let player_key = player_key_of player_id;
          opponent_key = opponent_key_of player_key
      in case gs_get gs player_key of
           Inl e \<Rightarrow> Inl e
         | Inr player \<Rightarrow>
             (case gs_get gs opponent_key of
                Inl e \<Rightarrow> Inl e
              | Inr opponent \<Rightarrow>
                  (let hit = ev_hit data;
                       player' = fst (handle_action player action_type hit);
                       damage_to_opponent = total_damage player action_type hit;
                       (opponent', damage_to_opponent', damage_to_shield) =
                          apply_shield opponent damage_to_opponent;
                       opponent'' = apply_hp opponent' damage_to_opponent'
                   in Inr (gs_set (gs_set gs player_key player') opponent_key opponent''))))"

section \<open>Message routing (lines 216-267)\<close>

text \<open>
  A publication is the JSON object that is sent: the action route sends
  \<^verbatim>\<open>{game_state, action, player_id}\<close>, the update route \<^verbatim>\<open>{game_state}\<close>. The
  snapshot is serialised when it is sent, so a message holds the state of that moment.
\<close>

datatype message =
    ActionMsg game_state "string option" player_id
  | StateMsg game_state

text \<open>
  The engine with its two sinks, each the list of the messages published so far:
  \<open>eval_queue\<close> is the RabbitMQ queue of \<^verbatim>\<open>publish_to_update_eval_server_queue\<close>,
  \<open>mqtt_topic\<close> the topic of \<^verbatim>\<open>mqtt_client.publish\<close>. Publishing is taken to
  succeed; the brokers are outside the model.
\<close>

record engine =
  state :: game_state
  eval_queue :: "message list"
  mqtt_topic :: "message list"

definition init_engine :: engine where
  "init_engine = \<lparr>state = init_game_state, eval_queue = [], mqtt_topic = []\<rparr>"

text \<open>
  \<^verbatim>\<open>process_message\<close> on a decoded event. The result is the engine after the call
  together with the exception that left the call, if any: the engine object outlives an
  exception, with the mutations made before it.
\<close>

definition process_message :: "engine \<Rightarrow> event \<Rightarrow> engine \<times> error option" where
  "process_message eng data =
     (let action_performed = ev_action data;
          to_update = ev_update data;
          player_id = ev_player_id data;
          action_type = ev_action_type data;
          incoming_game_state = ev_game_state data;
          eng1 = eng\<lparr>state := update_internal_game_state (state eng) incoming_game_state\<rparr>
      in if action_performed then
           (case perform_action (state eng1) player_id action_type data of
              Inl e \<Rightarrow> (eng1, Some e)
            | Inr gs \<Rightarrow>
                (let mqtt_message = ActionMsg gs action_type player_id
                 in (eng1\<lparr>state := gs,
                          eval_queue := eval_queue eng1 @ [mqtt_message],
                          mqtt_topic := mqtt_topic eng1 @ [mqtt_message]\<rparr>, None)))
         else if to_update then
           (eng1\<lparr>mqtt_topic := mqtt_topic eng1 @ [StateMsg (state eng1)]\<rparr>, None)
         else (eng1, None))"

section \<open>Example states and events\<close>

text \<open>
  Concrete states and events on which the theorems below are evaluated. An action
  event of a player carries \<^verbatim>\<open>hit = true\<close> and no partial game state.
\<close>

definition action_event :: "player_id \<Rightarrow> string \<Rightarrow> event" where
  "action_event player_id action_type =
     \<lparr>ev_update = False, ev_action = True, ev_player_id = player_id,
      ev_action_type = Some action_type, ev_hit = True, ev_game_state = Map.empty\<rparr>"

text \<open>An event without action: only the partial game state and the update flag.\<close>

definition merge_event :: "bool \<Rightarrow> (string \<rightharpoonup> player_update) \<Rightarrow> event" where
  "merge_event to_update incoming_game_state =
     \<lparr>ev_update = to_update, ev_action = False, ev_player_id = IdNone,
      ev_action_type = None, ev_hit = False, ev_game_state = incoming_game_state\<rparr>"

text \<open>
  Player 1 sees the opponent and has two rain bombs in effect; player 2 carries a
  shield of 10.
\<close>

definition shielded_state :: game_state where
  "shielded_state =
     \<lparr>p1 = init_player\<lparr>opponent_visible := True, opponent_in_rain_bomb := 2\<rparr>,
      p2 = init_player\<lparr>shield_hp := 10\<rparr>\<rparr>"

text \<open>Player 1 sees the opponent; player 2 is down to 5 hp.\<close>

definition weak_state :: game_state where
  "weak_state = \<lparr>p1 = init_player\<lparr>opponent_visible := True\<rparr>, p2 = init_player\<lparr>hp := 5\<rparr>\<rparr>"

text \<open>
  Player 1 sees the opponent, has two rain bombs in effect and no bullets left; player 2
  is as at the start.
\<close>

definition rain_state :: game_state where
  "rain_state =
     \<lparr>p1 = init_player\<lparr>opponent_visible := True, opponent_in_rain_bomb := 2, bullets := 0\<rparr>,
      p2 = init_player\<rparr>"

text \<open>Player 2 holds a negative \<^verbatim>\<open>shield_hp\<close>, as a merge can store it.\<close>

definition broken_shield_state :: game_state where
  "broken_shield_state = init_game_state\<lparr>p2 := init_player\<lparr>shield_hp := - 3\<rparr>\<rparr>"

text \<open>Player 1 has died once.\<close>

definition died_once :: game_state where
  "died_once = init_game_state\<lparr>p1 := init_player\<lparr>deaths := 1\<rparr>\<rparr>"

text \<open>An incoming game state that sets the hp of player 2 to -5 and nothing else.\<close>

definition wound :: "string \<rightharpoonup> player_update" where
  "wound = [''p2'' \<mapsto> no_update\<lparr>upd_hp := Some (- 5)\<rparr>]"

text \<open>
  An incoming game state in the manner of the evaluation server's updates in
  src/test_game_engine_custom.py (lines 93-112): it sets hp and deaths of player 1.
\<close>

definition eval_reset :: "string \<rightharpoonup> player_update" where
  "eval_reset = [''p1'' \<mapsto> no_update\<lparr>upd_hp := Some 90, upd_deaths := Some 0\<rparr>]"

section \<open>Basic facts\<close>

subsection \<open>Player keys\<close>

lemma player_key_of_1: "player_key_of (IdInt 1) = ''p1''"
  by (simp add: player_key_of_def str_int_def str_nat.simps digit_char_def)

lemma player_key_of_2: "player_key_of (IdInt 2) = ''p2''"
  by (simp add: player_key_of_def str_int_def str_nat.simps digit_char_def)

lemma player_key_of_3: "player_key_of (IdInt 3) = ''p3''"
  by (simp add: player_key_of_def str_int_def str_nat.simps digit_char_def)

lemma str_nat_not_Nil: "str_nat n \<noteq> []"
  by (subst str_nat.simps) simp

lemma digit_char_1: "n < 10 \<Longrightarrow> digit_char n = CHR ''1'' \<longleftrightarrow> n = 1"
proof -
  assume "n < 10"
  then have "n \<in> {0, 1, 2, 3, 4, 5, 6, 7, 8, 9}" by auto
  then show ?thesis by (auto simp: digit_char_def)
qed

lemma digit_char_2: "n < 10 \<Longrightarrow> digit_char n = CHR ''2'' \<longleftrightarrow> n = 2"
proof -
  assume "n < 10"
  then have "n \<in> {0, 1, 2, 3, 4, 5, 6, 7, 8, 9}" by auto
  then show ?thesis by (auto simp: digit_char_def)
qed

lemma str_nat_single: "str_nat n = [c] \<longleftrightarrow> n < 10 \<and> c = digit_char n"
  by (subst str_nat.simps) (auto simp: str_nat_not_Nil)

lemma str_int_1: "str_int i = ''1'' \<longleftrightarrow> i = 1"
proof (cases "i < 0")
  case True
  then show ?thesis by (simp add: str_int_def)
next
  case False
  have "str_nat (nat i) = [CHR ''1''] \<longleftrightarrow> nat i = 1"
    using digit_char_1 [of "nat i"] by (auto simp: str_nat_single)
  with False show ?thesis by (auto simp: str_int_def)
qed

lemma str_int_2: "str_int i = ''2'' \<longleftrightarrow> i = 2"
proof (cases "i < 0")
  case True
  then show ?thesis by (simp add: str_int_def)
next
  case False
  have "str_nat (nat i) = [CHR ''2''] \<longleftrightarrow> nat i = 2"
    using digit_char_2 [of "nat i"] by (auto simp: str_nat_single)
  with False show ?thesis by (auto simp: str_int_def)
qed

text \<open>
  The key is \<^verbatim>\<open>'p1'\<close> for the integer 1 and for the string \<^verbatim>\<open>'1'\<close> only, and
  likewise for \<^verbatim>\<open>'p2'\<close>.
\<close>

lemma player_key_p1_iff:
  "player_key_of player_id = ''p1'' \<longleftrightarrow> player_id = IdInt 1 \<or> player_id = IdStr ''1''"
  by (cases player_id) (auto simp: player_key_of_def str_int_1)

lemma player_key_p2_iff:
  "player_key_of player_id = ''p2'' \<longleftrightarrow> player_id = IdInt 2 \<or> player_id = IdStr ''2''"
  by (cases player_id) (auto simp: player_key_of_def str_int_2)

subsection \<open>The shape of a resolution\<close>

lemma perform_action_p1:
  assumes "player_key_of player_id = ''p1''"
  shows "perform_action gs player_id action_type data =
           Inr (gs\<lparr>p1 := fst (handle_action (p1 gs) action_type (ev_hit data)),
                   p2 := resolve_opponent (p2 gs) (total_damage (p1 gs) action_type (ev_hit data))\<rparr>)"
  using assms
  by (simp add: perform_action_def opponent_key_of_def gs_get_def gs_set_def Let_def
      resolve_opponent_def split: prod.splits)

lemma perform_action_p2:
  assumes "player_key_of player_id = ''p2''"
  shows "perform_action gs player_id action_type data =
           Inr (gs\<lparr>p2 := fst (handle_action (p2 gs) action_type (ev_hit data)),
                   p1 := resolve_opponent (p1 gs) (total_damage (p2 gs) action_type (ev_hit data))\<rparr>)"
  using assms
  by (simp add: perform_action_def opponent_key_of_def gs_get_def gs_set_def Let_def
      resolve_opponent_def split: prod.splits)

lemma perform_action_KeyError:
  assumes "player_key_of player_id \<noteq> ''p1''" "player_key_of player_id \<noteq> ''p2''"
  shows "perform_action gs player_id action_type data = Inl KeyError"
  using assms by (simp add: perform_action_def gs_get_def Let_def)

lemma lookup_cases:
  assumes "gs_get gs (player_key_of player_id) = Inr player"
    and "gs_get gs (opponent_key_of (player_key_of player_id)) = Inr opponent"
  shows "(player_key_of player_id = ''p1'' \<and> player = p1 gs \<and> opponent = p2 gs \<and>
            opponent_key_of (player_key_of player_id) = ''p2'') \<or>
         (player_key_of player_id = ''p2'' \<and> player = p2 gs \<and> opponent = p1 gs \<and>
            opponent_key_of (player_key_of player_id) = ''p1'')"
  using assms by (auto simp: gs_get_def opponent_key_of_def split: if_splits)

lemma perform_action_valid:
  assumes "gs_get gs (player_key_of player_id) = Inr player"
    and "gs_get gs (opponent_key_of (player_key_of player_id)) = Inr opponent"
  shows "\<exists>gs'. perform_action gs player_id action_type data = Inr gs' \<and>
           gs_get gs' (player_key_of player_id) =
             Inr (fst (handle_action player action_type (ev_hit data))) \<and>
           gs_get gs' (opponent_key_of (player_key_of player_id)) =
             Inr (resolve_opponent opponent (total_damage player action_type (ev_hit data)))"
  using lookup_cases [OF assms]
  by (auto simp: perform_action_p1 perform_action_p2 gs_get_def)

subsection \<open>Damage\<close>

lemma total_damage_nonneg: "0 \<le> total_damage player action_type hit"
  by (simp add: total_damage_def rain_damage_def handle_action_def)

lemma apply_shield_law:
  assumes "0 \<le> shield_hp opponent" "0 \<le> d"
  shows "apply_shield opponent d =
           (opponent\<lparr>shield_hp := shield_hp opponent - min (shield_hp opponent) d\<rparr>,
            d - min (shield_hp opponent) d, min (shield_hp opponent) d)"
  using assms by (auto simp: apply_shield_def Let_def min_def)


subsection \<open>Evaluation\<close>

lemmas example_defs =
  shielded_state_def weak_state_def rain_state_def broken_shield_state_def died_once_def
  init_game_state_def init_player_def action_event_def merge_event_def wound_def
  eval_reset_def no_update_def init_engine_def

lemmas stage_defs =
  handle_action_def rain_damage_def total_damage_def apply_shield_def apply_hp_def
  respawn_def resolve_opponent_def

lemma lookup_1: "gs_get gs (player_key_of (IdInt 1)) = Inr (p1 gs)"
  by (simp add: player_key_of_1 gs_get_def)

lemma lookup_opp_1: "gs_get gs (opponent_key_of (player_key_of (IdInt 1))) = Inr (p2 gs)"
  by (simp add: player_key_of_1 opponent_key_of_def gs_get_def)

subsection \<open>The merge, key by key\<close>

lemma update_internal_game_state_eq:
  "update_internal_game_state gs incoming =
     \<lparr>p1 = (case incoming ''p1'' of None \<Rightarrow> p1 gs | Some u \<Rightarrow> dict_update (p1 gs) u),
      p2 = (case incoming ''p2'' of None \<Rightarrow> p2 gs | Some u \<Rightarrow> dict_update (p2 gs) u)\<rparr>"
  by (simp add: update_internal_game_state_def merge_key_def gs_get_def gs_set_def
      split: option.splits)

section \<open>Shield absorption\<close>

text \<open>
  Claim C1. Take a resolution by a player whose key is in the game state, with an
  opponent whose \<^verbatim>\<open>shield_hp\<close> is at least 0 beforehand. The resolution returns; the
  amount the code puts into \<^verbatim>\<open>damage_to_shield\<close> is the minimum of the opponent's
  earlier \<^verbatim>\<open>shield_hp\<close> and the total damage (action damage plus rain damage); the
  opponent's \<^verbatim>\<open>shield_hp\<close> afterwards is the earlier value minus that amount; and the
  opponent's hp before the respawn check is the earlier hp minus the damage that was not
  absorbed: the final hp is that value, unless hp damage was dealt and the value is not
  positive, in which case the respawn sets it to 100.
\<close>

theorem shield_absorption_law:
  assumes "gs_get gs (player_key_of player_id) = Inr player"
    and "gs_get gs (opponent_key_of (player_key_of player_id)) = Inr opponent"
    and "0 \<le> shield_hp opponent"
  shows "\<exists>gs' opponent'.
           perform_action gs player_id action_type data = Inr gs' \<and>
           gs_get gs' (opponent_key_of (player_key_of player_id)) = Inr opponent' \<and>
           (let total = total_damage player action_type (ev_hit data);
                damage_absorbed = snd (snd (apply_shield opponent total));
                hp_before_respawn = hp opponent - (total - damage_absorbed)
            in damage_absorbed = min (shield_hp opponent) total \<and>
               shield_hp opponent' = shield_hp opponent - damage_absorbed \<and>
               hp opponent' =
                 (if 0 < total - damage_absorbed \<and> hp_before_respawn \<le> 0 then 100
                  else hp_before_respawn))"
proof -
  let ?total = "total_damage player action_type (ev_hit data)"
  have nn: "0 \<le> ?total" by (rule total_damage_nonneg)
  obtain gs' where run: "perform_action gs player_id action_type data = Inr gs'"
    and opp: "gs_get gs' (opponent_key_of (player_key_of player_id)) =
                Inr (resolve_opponent opponent ?total)"
    using perform_action_valid [OF assms(1,2)] by blast
  have law: "apply_shield opponent ?total =
           (opponent\<lparr>shield_hp := shield_hp opponent - min (shield_hp opponent) ?total\<rparr>,
            ?total - min (shield_hp opponent) ?total, min (shield_hp opponent) ?total)"
    by (rule apply_shield_law [OF assms(3) nn])
  have "shield_hp (resolve_opponent opponent ?total) =
          shield_hp opponent - min (shield_hp opponent) ?total"
    using assms(3) nn
    by (auto simp: resolve_opponent_def law apply_hp_def respawn_def Let_def min_def)
  moreover have "hp (resolve_opponent opponent ?total) =
      (if 0 < ?total - min (shield_hp opponent) ?total \<and>
          hp opponent - (?total - min (shield_hp opponent) ?total) \<le> 0 then 100
       else hp opponent - (?total - min (shield_hp opponent) ?total))"
    by (simp add: resolve_opponent_def law apply_hp_def respawn_def Let_def)
  ultimately show ?thesis
    unfolding Let_def law snd_conv using run opp by blast
qed

text \<open>
  Player 1 throws a bomb at the shielded player 2: 5 from the bomb and 10 from the rain
  make 15, the shield of 10 absorbs 10, and the hp goes from 100 to 95.
\<close>

theorem shield_absorption_law_witness:
  "gs_get shielded_state (player_key_of (IdInt 1)) = Inr (p1 shielded_state) \<and>
   gs_get shielded_state (opponent_key_of (player_key_of (IdInt 1))) = Inr (p2 shielded_state) \<and>
   0 \<le> shield_hp (p2 shielded_state) \<and>
   total_damage (p1 shielded_state) (Some ''bomb'') (ev_hit (action_event (IdInt 1) ''bomb'')) =
     15 \<and>
   snd (snd (apply_shield (p2 shielded_state) 15)) = 10 \<and>
   (\<exists>gs' opponent'.
      perform_action shielded_state (IdInt 1) (Some ''bomb'') (action_event (IdInt 1) ''bomb'') =
        Inr gs' \<and>
      gs_get gs' (opponent_key_of (player_key_of (IdInt 1))) = Inr opponent' \<and>
      shield_hp opponent' = 0 \<and> hp opponent' = 95)"
proof -
  have h3: "0 \<le> shield_hp (p2 shielded_state)"
    by (simp add: example_defs)
  have total: "total_damage (p1 shielded_state) (Some ''bomb'')
      (ev_hit (action_event (IdInt 1) ''bomb'')) = 15"
    by (simp add: example_defs stage_defs)
  have absorbed: "snd (snd (apply_shield (p2 shielded_state) 15)) = 10"
    by (simp add: example_defs stage_defs)
  have before: "shield_hp (p2 shielded_state) = 10" "hp (p2 shielded_state) = 100"
    by (simp_all add: example_defs)
  have run: "\<exists>gs' opponent'.
      perform_action shielded_state (IdInt 1) (Some ''bomb'') (action_event (IdInt 1) ''bomb'') =
        Inr gs' \<and>
      gs_get gs' (opponent_key_of (player_key_of (IdInt 1))) = Inr opponent' \<and>
      shield_hp opponent' = 0 \<and> hp opponent' = 95"
    using shield_absorption_law [OF lookup_1 lookup_opp_1 h3,
        of "Some ''bomb''" "action_event (IdInt 1) ''bomb''"]
    unfolding Let_def total absorbed before by auto
  show ?thesis
    by (intro conjI lookup_1 lookup_opp_1 h3 total absorbed run)
qed

section \<open>Respawn\<close>

text \<open>
  Claim C2. Take a resolution by a player whose key is in the game state in which the
  opponent's hp drops to 0 or below: damage remains after the shield, and the
  opponent's hp minus that damage is not positive. The resolution returns, and the
  opponent afterwards is the opponent from before with hp 100, deaths one higher,
  shields 3, \<^verbatim>\<open>shield_hp\<close> 0, bullets 6 and bombs 2; \<^verbatim>\<open>opponent_visible\<close>,
  \<^verbatim>\<open>opponent_in_rain_bomb\<close>, \<^verbatim>\<open>disconnected\<close> and \<^verbatim>\<open>login\<close> are as before.
\<close>

theorem respawn_resets_exactly:
  assumes "gs_get gs (player_key_of player_id) = Inr player"
    and "gs_get gs (opponent_key_of (player_key_of player_id)) = Inr opponent"
    and "0 < fst (snd (apply_shield opponent (total_damage player action_type (ev_hit data))))"
    and "hp opponent -
           fst (snd (apply_shield opponent (total_damage player action_type (ev_hit data)))) \<le> 0"
  shows "\<exists>gs' opponent'.
           perform_action gs player_id action_type data = Inr gs' \<and>
           gs_get gs' (opponent_key_of (player_key_of player_id)) = Inr opponent' \<and>
           opponent' =
             opponent\<lparr>hp := 100, deaths := deaths opponent + 1, shields := 3, shield_hp := 0,
               bullets := 6, bombs := 2\<rparr> \<and>
           opponent_visible opponent' = opponent_visible opponent \<and>
           opponent_in_rain_bomb opponent' = opponent_in_rain_bomb opponent \<and>
           disconnected opponent' = disconnected opponent \<and>
           login opponent' = login opponent"
proof -
  let ?total = "total_damage player action_type (ev_hit data)"
  obtain gs' where run: "perform_action gs player_id action_type data = Inr gs'"
    and opp: "gs_get gs' (opponent_key_of (player_key_of player_id)) =
                Inr (resolve_opponent opponent ?total)"
    using perform_action_valid [OF assms(1,2)] by blast
  have "resolve_opponent opponent ?total =
          opponent\<lparr>hp := 100, deaths := deaths opponent + 1, shields := 3, shield_hp := 0,
            bullets := 6, bombs := 2\<rparr>"
    using assms(3,4)
    by (auto simp: resolve_opponent_def apply_shield_def apply_hp_def respawn_def Let_def
        split: if_splits)
  with run opp show ?thesis by simp
qed

text \<open>
  Player 1 strikes with \<^verbatim>\<open>basket\<close> while player 2 has 5 hp: the 10 damage takes the
  hp to -5 and player 2 is reborn.
\<close>

theorem respawn_resets_exactly_witness:
  "gs_get weak_state (player_key_of (IdInt 1)) = Inr (p1 weak_state) \<and>
   gs_get weak_state (opponent_key_of (player_key_of (IdInt 1))) = Inr (p2 weak_state) \<and>
   0 < fst (snd (apply_shield (p2 weak_state)
          (total_damage (p1 weak_state) (Some ''basket'')
             (ev_hit (action_event (IdInt 1) ''basket''))))) \<and>
   hp (p2 weak_state) -
     fst (snd (apply_shield (p2 weak_state)
          (total_damage (p1 weak_state) (Some ''basket'')
             (ev_hit (action_event (IdInt 1) ''basket''))))) \<le> 0 \<and>
   (\<exists>gs' opponent'.
      perform_action weak_state (IdInt 1) (Some ''basket'') (action_event (IdInt 1) ''basket'') =
        Inr gs' \<and>
      gs_get gs' (opponent_key_of (player_key_of (IdInt 1))) = Inr opponent' \<and>
      opponent' =
        (p2 weak_state)\<lparr>hp := 100, deaths := deaths (p2 weak_state) + 1, shields := 3,
          shield_hp := 0, bullets := 6, bombs := 2\<rparr> \<and>
      opponent_visible opponent' = opponent_visible (p2 weak_state) \<and>
      opponent_in_rain_bomb opponent' = opponent_in_rain_bomb (p2 weak_state) \<and>
      disconnected opponent' = disconnected (p2 weak_state) \<and>
      login opponent' = login (p2 weak_state))"
proof -
  have h3: "0 < fst (snd (apply_shield (p2 weak_state)
          (total_damage (p1 weak_state) (Some ''basket'')
             (ev_hit (action_event (IdInt 1) ''basket'')))))"
    by (simp add: example_defs stage_defs)
  have h4: "hp (p2 weak_state) -
     fst (snd (apply_shield (p2 weak_state)
          (total_damage (p1 weak_state) (Some ''basket'')
             (ev_hit (action_event (IdInt 1) ''basket''))))) \<le> 0"
    by (simp add: example_defs stage_defs)
  show ?thesis
    by (intro conjI lookup_1 lookup_opp_1 h3 h4
        respawn_resets_exactly [OF lookup_1 lookup_opp_1 h3 h4])
qed

section \<open>Routing of an inbound event\<close>

text \<open>
  Claim C3, as stated, promises one publication to each sink for every event whose
  action flag is true. An event with the action flag and without a player id is merged,
  the key of line 141 is \<^verbatim>\<open>'pNone'\<close>, the resolution raises \<^verbatim>\<open>KeyError\<close> at line
  144, and nothing is published to either sink. The same happens for a player id such
  as 3.
\<close>

theorem unknown_id_no_publication_counterexample:
  "ev_action (action_event IdNone ''gun'') \<and>
   player_key_of (ev_player_id (action_event IdNone ''gun'')) = ''pNone'' \<and>
   snd (process_message init_engine (action_event IdNone ''gun'')) = Some KeyError \<and>
   eval_queue (fst (process_message init_engine (action_event IdNone ''gun''))) = [] \<and>
   mqtt_topic (fst (process_message init_engine (action_event IdNone ''gun''))) = []"
  by (simp add: process_message_def Let_def perform_action_KeyError player_key_of_def
      example_defs)

text \<open>
  Claim C3, amended. For every inbound event the partial game state is merged first,
  and then exactly one of four things happens. With the action flag true and a player
  id that formats to \<^verbatim>\<open>'1'\<close> or \<^verbatim>\<open>'2'\<close>, the action is resolved on the merged
  state and one message with the resolved state, the action type and the player id is
  appended to each of the two sinks. With the action flag true and any other player id,
  the resolution raises \<^verbatim>\<open>KeyError\<close>, the state stays the merged one and neither
  sink receives anything. With the action flag false and the update flag true, the
  merged state is published to the broadcast sink only and no action is resolved. With
  both flags false nothing is published. The update flag plays no part when the action
  flag is true.
\<close>

theorem process_message_routes:
  "let merged = update_internal_game_state (state eng) (ev_game_state data);
       eng' = fst (process_message eng data);
       raised = snd (process_message eng data)
   in if ev_action data then
        (if ev_player_id data \<in> {IdInt 1, IdStr ''1'', IdInt 2, IdStr ''2''} then
           (\<exists>gs. perform_action merged (ev_player_id data) (ev_action_type data) data = Inr gs \<and>
              raised = None \<and> state eng' = gs \<and>
              eval_queue eng' =
                eval_queue eng @ [ActionMsg gs (ev_action_type data) (ev_player_id data)] \<and>
              mqtt_topic eng' =
                mqtt_topic eng @ [ActionMsg gs (ev_action_type data) (ev_player_id data)])
         else
           perform_action merged (ev_player_id data) (ev_action_type data) data = Inl KeyError \<and>
           raised = Some KeyError \<and> state eng' = merged \<and>
           eval_queue eng' = eval_queue eng \<and> mqtt_topic eng' = mqtt_topic eng)
      else if ev_update data then
        raised = None \<and> state eng' = merged \<and> eval_queue eng' = eval_queue eng \<and>
        mqtt_topic eng' = mqtt_topic eng @ [StateMsg merged]
      else
        raised = None \<and> state eng' = merged \<and> eval_queue eng' = eval_queue eng \<and>
        mqtt_topic eng' = mqtt_topic eng"
proof -
  let ?merged = "update_internal_game_state (state eng) (ev_game_state data)"
  let ?run = "perform_action ?merged (ev_player_id data) (ev_action_type data) data"
  have valid: "\<exists>gs. ?run = Inr gs"
    if "ev_player_id data \<in> {IdInt 1, IdStr ''1'', IdInt 2, IdStr ''2''}"
  proof -
    from that have "player_key_of (ev_player_id data) = ''p1'' \<or>
        player_key_of (ev_player_id data) = ''p2''"
      by (auto simp: player_key_p1_iff player_key_p2_iff)
    then show ?thesis
      by (auto simp: perform_action_p1 perform_action_p2)
  qed
  have invalid: "?run = Inl KeyError"
    if "ev_player_id data \<notin> {IdInt 1, IdStr ''1'', IdInt 2, IdStr ''2''}"
  proof -
    from that have "player_key_of (ev_player_id data) \<noteq> ''p1''"
        "player_key_of (ev_player_id data) \<noteq> ''p2''"
      by (auto simp: player_key_p1_iff player_key_p2_iff)
    then show ?thesis by (rule perform_action_KeyError)
  qed
  show ?thesis
  proof (cases "ev_action data")
    case False
    then show ?thesis by (simp add: process_message_def Let_def)
  next
    case action: True
    show ?thesis
    proof (cases "ev_player_id data \<in> {IdInt 1, IdStr ''1'', IdInt 2, IdStr ''2''}")
      case True
      from valid [OF True] obtain gs where gs: "?run = Inr gs" ..
      have "perform_action (update_internal_game_state (state eng) (ev_game_state data))
              (ev_player_id data) (ev_action_type data) data = Inr gs"
        by (rule gs)
      then show ?thesis
        using action True by (simp add: process_message_def Let_def)
    next
      case False
      have "perform_action (update_internal_game_state (state eng) (ev_game_state data))
              (ev_player_id data) (ev_action_type data) data = Inl KeyError"
        by (rule invalid [OF False])
      then show ?thesis
        using action False by (simp add: process_message_def Let_def)
    qed
  qed
qed

text \<open>
  The four routes on the initial engine: a gun shot of player 1, a gun shot of the
  unknown player 3, a merge with the update flag, and a merge without it.
\<close>

theorem process_message_routes_witness:
  "(\<exists>gs. perform_action init_game_state (IdInt 1) (Some ''gun'') (action_event (IdInt 1) ''gun'') =
           Inr gs \<and>
         process_message init_engine (action_event (IdInt 1) ''gun'') =
           (\<lparr>state = gs,
             eval_queue = [ActionMsg gs (Some ''gun'') (IdInt 1)],
             mqtt_topic = [ActionMsg gs (Some ''gun'') (IdInt 1)]\<rparr>, None)) \<and>
   process_message init_engine (action_event (IdInt 3) ''gun'') = (init_engine, Some KeyError) \<and>
   process_message init_engine (merge_event True wound) =
     (\<lparr>state = update_internal_game_state init_game_state wound, eval_queue = [],
       mqtt_topic = [StateMsg (update_internal_game_state init_game_state wound)]\<rparr>, None) \<and>
   process_message init_engine (merge_event False wound) =
     (\<lparr>state = update_internal_game_state init_game_state wound, eval_queue = [],
       mqtt_topic = []\<rparr>, None)"
proof -
  have m: "update_internal_game_state init_game_state Map.empty = init_game_state"
    by (simp add: update_internal_game_state_eq)
  have a: "\<exists>gs. perform_action init_game_state (IdInt 1) (Some ''gun'')
             (action_event (IdInt 1) ''gun'') = Inr gs \<and>
         process_message init_engine (action_event (IdInt 1) ''gun'') =
           (\<lparr>state = gs,
             eval_queue = [ActionMsg gs (Some ''gun'') (IdInt 1)],
             mqtt_topic = [ActionMsg gs (Some ''gun'') (IdInt 1)]\<rparr>, None)"
    using process_message_routes [of init_engine "action_event (IdInt 1) ''gun''"]
    by (auto simp: Let_def action_event_def init_engine_def m prod_eq_iff)
  have b: "process_message init_engine (action_event (IdInt 3) ''gun'') =
      (init_engine, Some KeyError)"
    using process_message_routes [of init_engine "action_event (IdInt 3) ''gun''"]
    by (auto simp: Let_def action_event_def init_engine_def m prod_eq_iff)
  have c: "process_message init_engine (merge_event True wound) =
     (\<lparr>state = update_internal_game_state init_game_state wound, eval_queue = [],
       mqtt_topic = [StateMsg (update_internal_game_state init_game_state wound)]\<rparr>, None)"
    using process_message_routes [of init_engine "merge_event True wound"]
    by (auto simp: Let_def merge_event_def init_engine_def prod_eq_iff)
  have d: "process_message init_engine (merge_event False wound) =
     (\<lparr>state = update_internal_game_state init_game_state wound, eval_queue = [],
       mqtt_topic = []\<rparr>, None)"
    using process_message_routes [of init_engine "merge_event False wound"]
    by (auto simp: Let_def merge_event_def init_engine_def prod_eq_iff)
  show ?thesis by (intro conjI a b c d)
qed

section \<open>Rain damage\<close>

text \<open>
  Claim C4. Take a resolution by a player whose key is in the game state, whose
  \<^verbatim>\<open>opponent_in_rain_bomb\<close> counter is positive and who sees the opponent. Whatever
  the action type, the total damage is the damage of the action itself plus 5 times the
  counter, the resolution returns, and the opponent afterwards is what that total does
  to the opponent through shield and hp. In particular a \<^verbatim>\<open>reload\<close> with no bullets
  left sets the player's bullets to 6 and puts exactly 5 times the counter on the
  opponent: with no shield up, the opponent's hp falls by that amount, or is 100 after
  a respawn when it would not stay positive.
\<close>

theorem rain_damage_on_every_action:
  assumes "gs_get gs (player_key_of player_id) = Inr player"
    and "gs_get gs (opponent_key_of (player_key_of player_id)) = Inr opponent"
    and "0 < opponent_in_rain_bomb player"
    and "opponent_visible player"
  shows "total_damage player action_type (ev_hit data) =
           snd (handle_action player action_type (ev_hit data)) + 5 * opponent_in_rain_bomb player \<and>
         (\<exists>gs' player' opponent'.
            perform_action gs player_id action_type data = Inr gs' \<and>
            gs_get gs' (player_key_of player_id) = Inr player' \<and>
            gs_get gs' (opponent_key_of (player_key_of player_id)) = Inr opponent' \<and>
            opponent' =
              resolve_opponent opponent
                (snd (handle_action player action_type (ev_hit data)) +
                 5 * opponent_in_rain_bomb player) \<and>
            (action_type = Some ''reload'' \<and> bullets player = 0 \<longrightarrow>
               bullets player' = 6 \<and>
               opponent' = resolve_opponent opponent (5 * opponent_in_rain_bomb player) \<and>
               (shield_hp opponent \<le> 0 \<longrightarrow>
                  hp opponent' =
                    (if hp opponent - 5 * opponent_in_rain_bomb player \<le> 0 then 100
                     else hp opponent - 5 * opponent_in_rain_bomb player))))"
proof -
  let ?hit = "ev_hit data"
  let ?c = "opponent_in_rain_bomb player"
  have total: "total_damage player action_type ?hit =
                 snd (handle_action player action_type ?hit) + 5 * ?c"
    using assms(3,4) by (simp add: total_damage_def rain_damage_def)
  obtain gs' where run: "perform_action gs player_id action_type data = Inr gs'"
    and pl: "gs_get gs' (player_key_of player_id) = Inr (fst (handle_action player action_type ?hit))"
    and opp: "gs_get gs' (opponent_key_of (player_key_of player_id)) =
                Inr (resolve_opponent opponent (total_damage player action_type ?hit))"
    using perform_action_valid [OF assms(1,2)] by blast
  have reload: "action_type = Some ''reload'' \<and> bullets player = 0 \<longrightarrow>
      bullets (fst (handle_action player action_type ?hit)) = 6 \<and>
      snd (handle_action player action_type ?hit) = 0"
    by (simp add: handle_action_def)
  have hpd: "shield_hp opponent \<le> 0 \<longrightarrow>
      hp (resolve_opponent opponent (5 * ?c)) =
        (if hp opponent - 5 * ?c \<le> 0 then 100 else hp opponent - 5 * ?c)"
    using assms(3)
    by (simp add: resolve_opponent_def apply_shield_def apply_hp_def respawn_def Let_def)
  show ?thesis
    using total run pl opp reload hpd by (auto simp del: mult_less_cancel_left)
qed

text \<open>
  Player 1, out of bullets and with two rain bombs on a visible opponent, reloads: the
  bullets are 6 again and player 2 goes from 100 to 90 hp.
\<close>

theorem rain_damage_on_every_action_witness:
  "gs_get rain_state (player_key_of (IdInt 1)) = Inr (p1 rain_state) \<and>
   gs_get rain_state (opponent_key_of (player_key_of (IdInt 1))) = Inr (p2 rain_state) \<and>
   0 < opponent_in_rain_bomb (p1 rain_state) \<and>
   opponent_visible (p1 rain_state) \<and>
   bullets (p1 rain_state) = 0 \<and>
   total_damage (p1 rain_state) (Some ''reload'') (ev_hit (action_event (IdInt 1) ''reload'')) =
     10 \<and>
   (\<exists>gs' player' opponent'.
      perform_action rain_state (IdInt 1) (Some ''reload'') (action_event (IdInt 1) ''reload'') =
        Inr gs' \<and>
      gs_get gs' (player_key_of (IdInt 1)) = Inr player' \<and>
      gs_get gs' (opponent_key_of (player_key_of (IdInt 1))) = Inr opponent' \<and>
      bullets player' = 6 \<and> hp opponent' = 90)"
proof -
  have h3: "0 < opponent_in_rain_bomb (p1 rain_state)"
    by (simp add: example_defs)
  have h4: "opponent_visible (p1 rain_state)"
    by (simp add: example_defs)
  have b0: "bullets (p1 rain_state) = 0"
    by (simp add: example_defs)
  have sh: "shield_hp (p2 rain_state) \<le> 0"
    by (simp add: example_defs)
  have c: "opponent_in_rain_bomb (p1 rain_state) = 2" "hp (p2 rain_state) = 100"
    by (simp_all add: example_defs)
  have base: "snd (handle_action (p1 rain_state) (Some ''reload'')
      (ev_hit (action_event (IdInt 1) ''reload''))) = 0"
    by (simp add: example_defs stage_defs)
  note T = rain_damage_on_every_action [OF lookup_1 lookup_opp_1 h3 h4,
      of "Some ''reload''" "action_event (IdInt 1) ''reload''"]
  have total: "total_damage (p1 rain_state) (Some ''reload'')
      (ev_hit (action_event (IdInt 1) ''reload'')) = 10"
    using T base c by simp
  have run: "\<exists>gs' player' opponent'.
      perform_action rain_state (IdInt 1) (Some ''reload'') (action_event (IdInt 1) ''reload'') =
        Inr gs' \<and>
      gs_get gs' (player_key_of (IdInt 1)) = Inr player' \<and>
      gs_get gs' (opponent_key_of (player_key_of (IdInt 1))) = Inr opponent' \<and>
      bullets player' = 6 \<and> hp opponent' = 90"
    using T b0 sh unfolding c by auto
  show ?thesis
    by (intro conjI lookup_1 lookup_opp_1 h3 h4 b0 total run)
qed

section \<open>When the resolution raises\<close>

text \<open>
  Claim C5, as stated, says that the resolution returns normally for any player id. For
  the player id 3 the key is \<^verbatim>\<open>'p3'\<close>, which the game state does not hold, and the
  subscript of line 144 raises \<^verbatim>\<open>KeyError\<close>.
\<close>

theorem perform_action_raises_counterexample:
  "perform_action init_game_state (IdInt 3) (Some ''gun'') (action_event (IdInt 3) ''gun'') =
     Inl KeyError"
  by (simp add: perform_action_KeyError player_key_of_3)

text \<open>
  Claim C5, amended. On a state whose attributes hold integers and booleans, the
  resolution returns normally, for every action type and every auxiliary data, exactly
  when the player id is the integer 1 or 2 or the string \<^verbatim>\<open>'1'\<close> or \<^verbatim>\<open>'2'\<close>: it then
  gives the player the effect of the action and the opponent the effect of the total
  damage. For every other player id, an absent one included, it raises \<^verbatim>\<open>KeyError\<close>.
\<close>

theorem perform_action_returns_iff:
  "perform_action gs player_id action_type data =
     (if player_id \<in> {IdInt 1, IdStr ''1''} then
        Inr (gs\<lparr>p1 := fst (handle_action (p1 gs) action_type (ev_hit data)),
                p2 := resolve_opponent (p2 gs) (total_damage (p1 gs) action_type (ev_hit data))\<rparr>)
      else if player_id \<in> {IdInt 2, IdStr ''2''} then
        Inr (gs\<lparr>p2 := fst (handle_action (p2 gs) action_type (ev_hit data)),
                p1 := resolve_opponent (p1 gs) (total_damage (p2 gs) action_type (ev_hit data))\<rparr>)
      else Inl KeyError)"
proof -
  consider (one) "player_key_of player_id = ''p1''" | (two) "player_key_of player_id = ''p2''"
    | (other) "player_key_of player_id \<noteq> ''p1''" "player_key_of player_id \<noteq> ''p2''"
    by blast
  then show ?thesis
  proof cases
    case one
    then have "player_id \<in> {IdInt 1, IdStr ''1''}" by (simp add: player_key_p1_iff)
    with one show ?thesis by (simp add: perform_action_p1)
  next
    case two
    then have in2: "player_id \<in> {IdInt 2, IdStr ''2''}" by (simp add: player_key_p2_iff)
    then have "player_id \<notin> {IdInt 1, IdStr ''1''}" by auto
    with two in2 show ?thesis by (simp add: perform_action_p2)
  next
    case other
    then have "player_id \<notin> {IdInt 1, IdStr ''1''}" "player_id \<notin> {IdInt 2, IdStr ''2''}"
      by (simp_all add: player_key_p1_iff player_key_p2_iff)
    with other show ?thesis by (simp add: perform_action_KeyError)
  qed
qed

text \<open>
  On the initial state: player 1 fires a gun that hits (bullets 6 to 5, the opponent's
  hp 100 to 95), the player given as the string \<^verbatim>\<open>'2'\<close> does the same from the other
  side, and an absent player id and the player id 0 raise.
\<close>

theorem perform_action_returns_iff_witness:
  "perform_action init_game_state (IdInt 1) (Some ''gun'') (action_event (IdInt 1) ''gun'') =
     Inr (init_game_state\<lparr>p1 := init_player\<lparr>bullets := 5\<rparr>, p2 := init_player\<lparr>hp := 95\<rparr>\<rparr>) \<and>
   perform_action init_game_state (IdStr ''2'') (Some ''gun'') (action_event (IdStr ''2'') ''gun'') =
     Inr (init_game_state\<lparr>p2 := init_player\<lparr>bullets := 5\<rparr>, p1 := init_player\<lparr>hp := 95\<rparr>\<rparr>) \<and>
   perform_action init_game_state IdNone (Some ''gun'') (action_event IdNone ''gun'') =
     Inl KeyError \<and>
   perform_action init_game_state (IdInt 0) (Some ''gun'') (action_event (IdInt 0) ''gun'') =
     Inl KeyError"
proof -
  have a: "perform_action init_game_state (IdInt 1) (Some ''gun'') (action_event (IdInt 1) ''gun'') =
     Inr (init_game_state\<lparr>p1 := init_player\<lparr>bullets := 5\<rparr>, p2 := init_player\<lparr>hp := 95\<rparr>\<rparr>)"
    using perform_action_returns_iff [of init_game_state "IdInt 1" "Some ''gun''"
        "action_event (IdInt 1) ''gun''"]
    by (simp add: example_defs stage_defs)
  have b: "perform_action init_game_state (IdStr ''2'') (Some ''gun'')
        (action_event (IdStr ''2'') ''gun'') =
     Inr (init_game_state\<lparr>p2 := init_player\<lparr>bullets := 5\<rparr>, p1 := init_player\<lparr>hp := 95\<rparr>\<rparr>)"
    using perform_action_returns_iff [of init_game_state "IdStr ''2''" "Some ''gun''"
        "action_event (IdStr ''2'') ''gun''"]
    by (simp add: example_defs stage_defs)
  have c: "perform_action init_game_state IdNone (Some ''gun'') (action_event IdNone ''gun'') =
     Inl KeyError"
    using perform_action_returns_iff [of init_game_state IdNone "Some ''gun''"
        "action_event IdNone ''gun''"]
    by simp
  have d: "perform_action init_game_state (IdInt 0) (Some ''gun'') (action_event (IdInt 0) ''gun'') =
     Inl KeyError"
    using perform_action_returns_iff [of init_game_state "IdInt 0" "Some ''gun''"
        "action_event (IdInt 0) ''gun''"]
    by simp
  show ?thesis by (intro conjI a b c d)
qed

section \<open>Action types outside the vocabulary\<close>

text \<open>
  Claim C6, as stated, calls the whole resolution of an unrecognized action type a
  no-op. The rain damage of lines 189-191 is outside the branch on the action type: when
  player 1 sees the opponent with two rain bombs in effect, the unknown action
  \<^verbatim>\<open>dance\<close> takes the hp of player 2 from 100 to 90.
\<close>

theorem unrecognized_action_rain_counterexample:
  "Some ''dance'' \<notin> {Some ''gun'', Some ''bomb'', Some ''reload'', Some ''shield'',
      Some ''logout'', Some ''basket'', Some ''volley'', Some ''soccer'', Some ''bowl''} \<and>
   hp (p2 rain_state) = 100 \<and>
   perform_action rain_state (IdInt 1) (Some ''dance'') (action_event (IdInt 1) ''dance'') =
     Inr (rain_state\<lparr>p2 := init_player\<lparr>hp := 90\<rparr>\<rparr>)"
  by (simp add: perform_action_p1 player_key_of_1 example_defs stage_defs)

text \<open>
  Claim C6, amended. Take a resolution by a player whose key is in the game state, with
  an action type outside the vocabulary (gun, bomb, reload, shield, logout, basket,
  volley, soccer, bowl), an absent action type included. The branch on the action type
  gives base damage 0 and leaves the player as it was; the resolution returns without
  an error and the player is unchanged in the result; the opponent is what the rain
  damage alone does to it. When no rain damage applies (the counter is not positive or
  the opponent is not visible) and the opponent's \<^verbatim>\<open>shield_hp\<close> is not negative,
  the whole game state is unchanged.
\<close>

theorem unrecognized_action_effect:
  assumes "gs_get gs (player_key_of player_id) = Inr player"
    and "gs_get gs (opponent_key_of (player_key_of player_id)) = Inr opponent"
    and "action_type \<notin> {Some ''gun'', Some ''bomb'', Some ''reload'', Some ''shield'',
           Some ''logout'', Some ''basket'', Some ''volley'', Some ''soccer'', Some ''bowl''}"
  shows "handle_action player action_type (ev_hit data) = (player, 0) \<and>
         (\<exists>gs' opponent'.
            perform_action gs player_id action_type data = Inr gs' \<and>
            gs_get gs' (player_key_of player_id) = Inr player \<and>
            gs_get gs' (opponent_key_of (player_key_of player_id)) = Inr opponent' \<and>
            opponent' = resolve_opponent opponent (rain_damage player 0) \<and>
            ((opponent_in_rain_bomb player \<le> 0 \<or> \<not> opponent_visible player) \<and>
               0 \<le> shield_hp opponent \<longrightarrow> gs' = gs))"
proof -
  let ?hit = "ev_hit data"
  have base: "handle_action player action_type ?hit = (player, 0)"
    using assms(3) by (simp add: handle_action_def)
  then have total: "total_damage player action_type ?hit = rain_damage player 0"
    by (simp add: total_damage_def)
  have quiet: "(opponent_in_rain_bomb player \<le> 0 \<or> \<not> opponent_visible player) \<and>
      0 \<le> shield_hp opponent \<longrightarrow> resolve_opponent opponent (rain_damage player 0) = opponent"
    by (auto simp: rain_damage_def resolve_opponent_def apply_shield_def apply_hp_def)
  from lookup_cases [OF assms(1,2)] show ?thesis
  proof (elim disjE conjE)
    assume "player_key_of player_id = ''p1''" and "player = p1 gs" "opponent = p2 gs"
      "opponent_key_of (player_key_of player_id) = ''p2''"
    then show ?thesis
      using base total quiet by (auto simp: perform_action_p1 gs_get_def)
  next
    assume "player_key_of player_id = ''p2''" and "player = p2 gs" "opponent = p1 gs"
      "opponent_key_of (player_key_of player_id) = ''p1''"
    then show ?thesis
      using base total quiet by (auto simp: perform_action_p2 gs_get_def)
  qed
qed

text \<open>The unknown action \<^verbatim>\<open>dance\<close> of player 1 on the initial state changes nothing.\<close>

theorem unrecognized_action_effect_witness:
  "gs_get init_game_state (player_key_of (IdInt 1)) = Inr (p1 init_game_state) \<and>
   gs_get init_game_state (opponent_key_of (player_key_of (IdInt 1))) = Inr (p2 init_game_state) \<and>
   Some ''dance'' \<notin> {Some ''gun'', Some ''bomb'', Some ''reload'', Some ''shield'',
      Some ''logout'', Some ''basket'', Some ''volley'', Some ''soccer'', Some ''bowl''} \<and>
   handle_action (p1 init_game_state) (Some ''dance'') (ev_hit (action_event (IdInt 1) ''dance'')) =
     (p1 init_game_state, 0) \<and>
   opponent_in_rain_bomb (p1 init_game_state) \<le> 0 \<and>
   0 \<le> shield_hp (p2 init_game_state) \<and>
   perform_action init_game_state (IdInt 1) (Some ''dance'') (action_event (IdInt 1) ''dance'') =
     Inr init_game_state"
proof -
  have h3: "Some ''dance'' \<notin> {Some ''gun'', Some ''bomb'', Some ''reload'', Some ''shield'',
      Some ''logout'', Some ''basket'', Some ''volley'', Some ''soccer'', Some ''bowl''}"
    by simp
  have q1: "opponent_in_rain_bomb (p1 init_game_state) \<le> 0"
    by (simp add: example_defs)
  have q2: "0 \<le> shield_hp (p2 init_game_state)"
    by (simp add: example_defs)
  note T = unrecognized_action_effect [OF lookup_1 lookup_opp_1 h3,
      where data = "action_event (IdInt 1) ''dance''"]
  have base: "handle_action (p1 init_game_state) (Some ''dance'')
      (ev_hit (action_event (IdInt 1) ''dance'')) = (p1 init_game_state, 0)"
    using T by blast
  have run: "perform_action init_game_state (IdInt 1) (Some ''dance'')
      (action_event (IdInt 1) ''dance'') = Inr init_game_state"
    using T q1 q2 by blast
  show ?thesis
    by (intro conjI lookup_1 lookup_opp_1 h3 base q1 q2 run)
qed

section \<open>The merge of a partial game state\<close>

text \<open>
  Claim C7. For every game state and every incoming partial game state, and for each
  of the two player keys: when the key is absent from the incoming data, the player is
  left as it was; when it is present, each of the ten attributes takes the incoming
  value if the incoming player holds that attribute and keeps its earlier value if not.
  The merge goes field by field; it does not replace the player.
\<close>

theorem merge_overwrites_present_only:
  assumes "gs_get gs key = Inr pl"
  shows "\<exists>pl'. gs_get (update_internal_game_state gs incoming) key = Inr pl' \<and>
           (case incoming key of
              None \<Rightarrow> pl' = pl
            | Some u \<Rightarrow>
                hp pl' = (case upd_hp u of None \<Rightarrow> hp pl | Some v \<Rightarrow> v) \<and>
                bullets pl' = (case upd_bullets u of None \<Rightarrow> bullets pl | Some v \<Rightarrow> v) \<and>
                bombs pl' = (case upd_bombs u of None \<Rightarrow> bombs pl | Some v \<Rightarrow> v) \<and>
                shield_hp pl' = (case upd_shield_hp u of None \<Rightarrow> shield_hp pl | Some v \<Rightarrow> v) \<and>
                deaths pl' = (case upd_deaths u of None \<Rightarrow> deaths pl | Some v \<Rightarrow> v) \<and>
                shields pl' = (case upd_shields u of None \<Rightarrow> shields pl | Some v \<Rightarrow> v) \<and>
                opponent_visible pl' =
                  (case upd_opponent_visible u of None \<Rightarrow> opponent_visible pl | Some v \<Rightarrow> v) \<and>
                opponent_in_rain_bomb pl' =
                  (case upd_opponent_in_rain_bomb u of
                     None \<Rightarrow> opponent_in_rain_bomb pl | Some v \<Rightarrow> v) \<and>
                disconnected pl' =
                  (case upd_disconnected u of None \<Rightarrow> disconnected pl | Some v \<Rightarrow> v) \<and>
                login pl' = (case upd_login u of None \<Rightarrow> login pl | Some v \<Rightarrow> v))"
proof -
  from assms consider (one) "key = ''p1''" "pl = p1 gs" | (two) "key = ''p2''" "pl = p2 gs"
    by (auto simp: gs_get_def split: if_splits)
  then show ?thesis
  proof cases
    case one
    show ?thesis unfolding one
      by (cases "incoming ''p1''")
        (simp_all add: update_internal_game_state_eq gs_get_def dict_update_def)
  next
    case two
    show ?thesis unfolding two
      by (cases "incoming ''p2''")
        (simp_all add: update_internal_game_state_eq gs_get_def dict_update_def)
  qed
qed

text \<open>
  On the initial state, the incoming data sets hp and deaths of player 1 and does not
  mention player 2: player 1 has the two new values and its other attributes as before,
  player 2 is as before.
\<close>

theorem merge_overwrites_present_only_witness:
  "gs_get init_game_state ''p1'' = Inr init_player \<and>
   (\<exists>pl'. gs_get (update_internal_game_state init_game_state eval_reset) ''p1'' = Inr pl' \<and>
      pl' = init_player\<lparr>hp := 90, deaths := 0\<rparr>) \<and>
   gs_get init_game_state ''p2'' = Inr init_player \<and>
   eval_reset ''p2'' = None \<and>
   (\<exists>pl'. gs_get (update_internal_game_state init_game_state eval_reset) ''p2'' = Inr pl' \<and>
      pl' = init_player)"
proof -
  have g1: "gs_get init_game_state ''p1'' = Inr init_player"
    by (simp add: gs_get_def init_game_state_def)
  have g2: "gs_get init_game_state ''p2'' = Inr init_player"
    by (simp add: gs_get_def init_game_state_def)
  have e1: "eval_reset ''p1'' = Some (no_update\<lparr>upd_hp := Some 90, upd_deaths := Some 0\<rparr>)"
    by (simp add: eval_reset_def)
  have e2: "eval_reset ''p2'' = None"
    by (simp add: eval_reset_def)
  have a: "\<exists>pl'. gs_get (update_internal_game_state init_game_state eval_reset) ''p1'' = Inr pl' \<and>
      pl' = init_player\<lparr>hp := 90, deaths := 0\<rparr>"
    using merge_overwrites_present_only [OF g1, of eval_reset]
    unfolding e1 by (auto simp: no_update_def init_player_def)
  have b: "\<exists>pl'. gs_get (update_internal_game_state init_game_state eval_reset) ''p2'' = Inr pl' \<and>
      pl' = init_player"
    using merge_overwrites_present_only [OF g2, of eval_reset]
    unfolding e2 by simp
  show ?thesis
    by (intro conjI g1 a g2 e2 b)
qed

section \<open>The opponent's hp after a resolution\<close>

text \<open>
  Claim C8, as stated, has the opponent's hp positive after every resolution. The
  respawn check of line 207 sits inside the test for remaining damage of line 204, so a
  resolution that deals no hp damage leaves a non-positive hp as it is. On the initial
  state with the hp of player 2 merged to -5, the \<^verbatim>\<open>logout\<close> of player 1 returns
  with the hp of player 2 still -5.
\<close>

theorem hp_not_positive_counterexample:
  "perform_action (update_internal_game_state init_game_state wound) (IdInt 1)
       (Some ''logout'') (action_event (IdInt 1) ''logout'') =
     Inr (init_game_state\<lparr>p2 := init_player\<lparr>hp := - 5\<rparr>\<rparr>) \<and>
   hp (p2 (init_game_state\<lparr>p2 := init_player\<lparr>hp := - 5\<rparr>\<rparr>)) = - 5"
  by (simp add: perform_action_p1 player_key_of_1 update_internal_game_state_eq
      dict_update_def example_defs stage_defs)

text \<open>
  Claim C8, amended. Take a resolution by a player whose key is in the game state. The
  opponent's hp is positive afterwards whenever it was positive beforehand, and
  whenever damage remained after the shield; whenever the remaining damage takes the
  hp to 0 or below, the hp afterwards is exactly 100, however far below zero it went;
  and when no damage remains after the shield the hp is left as it was, positive or
  not.
\<close>

theorem hp_positive_after:
  assumes "gs_get gs (player_key_of player_id) = Inr player"
    and "gs_get gs (opponent_key_of (player_key_of player_id)) = Inr opponent"
  shows "\<exists>gs' opponent'.
           perform_action gs player_id action_type data = Inr gs' \<and>
           gs_get gs' (opponent_key_of (player_key_of player_id)) = Inr opponent' \<and>
           (let remaining =
                  fst (snd (apply_shield opponent (total_damage player action_type (ev_hit data))))
            in (0 < hp opponent \<longrightarrow> 0 < hp opponent') \<and>
               (0 < remaining \<longrightarrow> 0 < hp opponent') \<and>
               (0 < remaining \<and> hp opponent - remaining \<le> 0 \<longrightarrow> hp opponent' = 100) \<and>
               (remaining \<le> 0 \<longrightarrow> hp opponent' = hp opponent))"
proof -
  let ?total = "total_damage player action_type (ev_hit data)"
  let ?rem = "fst (snd (apply_shield opponent ?total))"
  obtain gs' where run: "perform_action gs player_id action_type data = Inr gs'"
    and opp: "gs_get gs' (opponent_key_of (player_key_of player_id)) =
                Inr (resolve_opponent opponent ?total)"
    using perform_action_valid [OF assms(1,2)] by blast
  have sh: "hp (fst (apply_shield opponent ?total)) = hp opponent"
    by (simp add: apply_shield_def Let_def)
  have a: "0 < hp opponent \<longrightarrow> 0 < hp (resolve_opponent opponent ?total)"
    using sh by (simp add: resolve_opponent_def apply_hp_def respawn_def Let_def)
  have b: "0 < ?rem \<longrightarrow> 0 < hp (resolve_opponent opponent ?total)"
    using sh by (simp add: resolve_opponent_def apply_hp_def respawn_def Let_def)
  have c: "0 < ?rem \<and> hp opponent - ?rem \<le> 0 \<longrightarrow> hp (resolve_opponent opponent ?total) = 100"
    using sh by (simp add: resolve_opponent_def apply_hp_def respawn_def Let_def)
  have d: "?rem \<le> 0 \<longrightarrow> hp (resolve_opponent opponent ?total) = hp opponent"
    using sh by (simp add: resolve_opponent_def apply_hp_def respawn_def Let_def)
  show ?thesis
    unfolding Let_def using run opp a b c d by blast
qed

text \<open>
  Player 2 has 5 hp. The \<^verbatim>\<open>basket\<close> of player 1 leaves 10 damage after the shield
  and player 2 ends with 100 hp; the \<^verbatim>\<open>logout\<close> of player 1 leaves none and player 2
  keeps its 5 hp.
\<close>

theorem hp_positive_after_witness:
  "gs_get weak_state (player_key_of (IdInt 1)) = Inr (p1 weak_state) \<and>
   gs_get weak_state (opponent_key_of (player_key_of (IdInt 1))) = Inr (p2 weak_state) \<and>
   hp (p2 weak_state) = 5 \<and>
   fst (snd (apply_shield (p2 weak_state)
     (total_damage (p1 weak_state) (Some ''basket'')
        (ev_hit (action_event (IdInt 1) ''basket''))))) = 10 \<and>
   (\<exists>gs' opponent'.
      perform_action weak_state (IdInt 1) (Some ''basket'') (action_event (IdInt 1) ''basket'') =
        Inr gs' \<and>
      gs_get gs' (opponent_key_of (player_key_of (IdInt 1))) = Inr opponent' \<and>
      hp opponent' = 100) \<and>
   fst (snd (apply_shield (p2 weak_state)
     (total_damage (p1 weak_state) (Some ''logout'')
        (ev_hit (action_event (IdInt 1) ''logout''))))) = 0 \<and>
   (\<exists>gs' opponent'.
      perform_action weak_state (IdInt 1) (Some ''logout'') (action_event (IdInt 1) ''logout'') =
        Inr gs' \<and>
      gs_get gs' (opponent_key_of (player_key_of (IdInt 1))) = Inr opponent' \<and>
      hp opponent' = 5)"
proof -
  have hp5: "hp (p2 weak_state) = 5"
    by (simp add: example_defs)
  have rem10: "fst (snd (apply_shield (p2 weak_state)
     (total_damage (p1 weak_state) (Some ''basket'')
        (ev_hit (action_event (IdInt 1) ''basket''))))) = 10"
    by (simp add: example_defs stage_defs)
  have rem0: "fst (snd (apply_shield (p2 weak_state)
     (total_damage (p1 weak_state) (Some ''logout'')
        (ev_hit (action_event (IdInt 1) ''logout''))))) = 0"
    by (simp add: example_defs stage_defs)
  have a: "\<exists>gs' opponent'.
      perform_action weak_state (IdInt 1) (Some ''basket'') (action_event (IdInt 1) ''basket'') =
        Inr gs' \<and>
      gs_get gs' (opponent_key_of (player_key_of (IdInt 1))) = Inr opponent' \<and>
      hp opponent' = 100"
    using hp_positive_after [OF lookup_1 lookup_opp_1, of weak_state
        "Some ''basket''" "action_event (IdInt 1) ''basket''"]
    unfolding Let_def rem10 hp5 by auto
  have b: "\<exists>gs' opponent'.
      perform_action weak_state (IdInt 1) (Some ''logout'') (action_event (IdInt 1) ''logout'') =
        Inr gs' \<and>
      gs_get gs' (opponent_key_of (player_key_of (IdInt 1))) = Inr opponent' \<and>
      hp opponent' = 5"
    using hp_positive_after [OF lookup_1 lookup_opp_1, of weak_state
        "Some ''logout''" "action_event (IdInt 1) ''logout''"]
    unfolding Let_def rem0 hp5 by auto
  show ?thesis
    by (intro conjI lookup_1 lookup_opp_1 hp5 rem10 a rem0 b)
qed

section \<open>The deaths counter\<close>

text \<open>
  Claim C9, as stated, lets no operation decrease a player's deaths. The merge stores
  whatever value the incoming data holds: on a state in which player 1 has died once,
  an update in the manner of the evaluation server's, with deaths 0 for player 1, takes
  the counter from 1 to 0.
\<close>

theorem deaths_decrease_counterexample:
  "deaths (p1 died_once) = 1 \<and>
   deaths (p1 (update_internal_game_state died_once eval_reset)) = 0"
  by (simp add: update_internal_game_state_eq dict_update_def example_defs)

text \<open>
  Claim C9, amended. An action resolution by a player whose key is in the game state
  never decreases a deaths counter: the acting player's counter is unchanged and the
  opponent's counter stays or goes up by one. A merge leaves the counter of a player
  unchanged when the incoming data does not hold that player or does not hold its
  deaths attribute, and otherwise stores the incoming value, whatever it is.
\<close>

theorem deaths_monotone_in_resolution:
  assumes "gs_get gs (player_key_of player_id) = Inr player"
    and "gs_get gs (opponent_key_of (player_key_of player_id)) = Inr opponent"
  shows "(\<exists>gs' player' opponent'.
            perform_action gs player_id action_type data = Inr gs' \<and>
            gs_get gs' (player_key_of player_id) = Inr player' \<and>
            gs_get gs' (opponent_key_of (player_key_of player_id)) = Inr opponent' \<and>
            deaths player' = deaths player \<and>
            deaths opponent \<le> deaths opponent' \<and>
            deaths opponent' \<le> deaths opponent + 1) \<and>
         deaths (p1 (update_internal_game_state gs incoming)) =
           (case incoming ''p1'' of
              None \<Rightarrow> deaths (p1 gs)
            | Some u \<Rightarrow> (case upd_deaths u of None \<Rightarrow> deaths (p1 gs) | Some v \<Rightarrow> v)) \<and>
         deaths (p2 (update_internal_game_state gs incoming)) =
           (case incoming ''p2'' of
              None \<Rightarrow> deaths (p2 gs)
            | Some u \<Rightarrow> (case upd_deaths u of None \<Rightarrow> deaths (p2 gs) | Some v \<Rightarrow> v))"
proof -
  let ?total = "total_damage player action_type (ev_hit data)"
  obtain gs' where run: "perform_action gs player_id action_type data = Inr gs'"
    and pl: "gs_get gs' (player_key_of player_id) =
               Inr (fst (handle_action player action_type (ev_hit data)))"
    and opp: "gs_get gs' (opponent_key_of (player_key_of player_id)) =
                Inr (resolve_opponent opponent ?total)"
    using perform_action_valid [OF assms(1,2)] by blast
  have a: "deaths (fst (handle_action player action_type (ev_hit data))) = deaths player"
    by (simp add: handle_action_def)
  have b: "deaths opponent \<le> deaths (resolve_opponent opponent ?total)"
    by (simp add: resolve_opponent_def apply_shield_def apply_hp_def respawn_def Let_def)
  have c: "deaths (resolve_opponent opponent ?total) \<le> deaths opponent + 1"
    by (simp add: resolve_opponent_def apply_shield_def apply_hp_def respawn_def Let_def)
  have m1: "deaths (p1 (update_internal_game_state gs incoming)) =
           (case incoming ''p1'' of
              None \<Rightarrow> deaths (p1 gs)
            | Some u \<Rightarrow> (case upd_deaths u of None \<Rightarrow> deaths (p1 gs) | Some v \<Rightarrow> v))"
    by (simp add: update_internal_game_state_eq dict_update_def split: option.splits)
  have m2: "deaths (p2 (update_internal_game_state gs incoming)) =
           (case incoming ''p2'' of
              None \<Rightarrow> deaths (p2 gs)
            | Some u \<Rightarrow> (case upd_deaths u of None \<Rightarrow> deaths (p2 gs) | Some v \<Rightarrow> v))"
    by (simp add: update_internal_game_state_eq dict_update_def split: option.splits)
  from run pl opp a b c have "\<exists>gs' player' opponent'.
            perform_action gs player_id action_type data = Inr gs' \<and>
            gs_get gs' (player_key_of player_id) = Inr player' \<and>
            gs_get gs' (opponent_key_of (player_key_of player_id)) = Inr opponent' \<and>
            deaths player' = deaths player \<and>
            deaths opponent \<le> deaths opponent' \<and>
            deaths opponent' \<le> deaths opponent + 1"
    by blast
  with m1 m2 show ?thesis by (intro conjI)
qed

text \<open>
  The \<^verbatim>\<open>basket\<close> of player 1 on a player 2 with 5 hp, and the merge that only sets
  the hp of player 2: neither counter goes down.
\<close>

theorem deaths_monotone_in_resolution_witness:
  "gs_get weak_state (player_key_of (IdInt 1)) = Inr (p1 weak_state) \<and>
   gs_get weak_state (opponent_key_of (player_key_of (IdInt 1))) = Inr (p2 weak_state) \<and>
   (\<exists>gs' player' opponent'.
      perform_action weak_state (IdInt 1) (Some ''basket'') (action_event (IdInt 1) ''basket'') =
        Inr gs' \<and>
      gs_get gs' (player_key_of (IdInt 1)) = Inr player' \<and>
      gs_get gs' (opponent_key_of (player_key_of (IdInt 1))) = Inr opponent' \<and>
      deaths player' = deaths (p1 weak_state) \<and>
      deaths (p2 weak_state) \<le> deaths opponent' \<and>
      deaths opponent' \<le> deaths (p2 weak_state) + 1) \<and>
   deaths (p1 (update_internal_game_state weak_state wound)) = deaths (p1 weak_state) \<and>
   deaths (p2 (update_internal_game_state weak_state wound)) = deaths (p2 weak_state)"
proof -
  note T = deaths_monotone_in_resolution [OF lookup_1 lookup_opp_1, of weak_state
      "Some ''basket''" "action_event (IdInt 1) ''basket''" wound]
  have w: "wound ''p1'' = None" "wound ''p2'' = Some (no_update\<lparr>upd_hp := Some (- 5)\<rparr>)"
    by (simp_all add: wound_def)
  have d: "upd_deaths (no_update\<lparr>upd_hp := Some (- 5)\<rparr>) = None"
    by (simp add: no_update_def)
  from T show ?thesis
    unfolding w by (simp add: d lookup_1 lookup_opp_1)
qed

section \<open>The opponent's shield after a resolution\<close>

text \<open>
  Claim C10. After every resolution by a player whose key is in the game state (the
  player ids 1 and 2), the opponent's \<^verbatim>\<open>shield_hp\<close> is at least 0: when it was 0 or
  below beforehand the resolution sets it to exactly 0, whatever the total damage, zero
  included; and when it was positive the absorption leaves it between 0 and its earlier
  value.
\<close>

theorem shield_hp_nonneg_after:
  assumes "gs_get gs (player_key_of player_id) = Inr player"
    and "gs_get gs (opponent_key_of (player_key_of player_id)) = Inr opponent"
  shows "\<exists>gs' opponent'.
           perform_action gs player_id action_type data = Inr gs' \<and>
           gs_get gs' (opponent_key_of (player_key_of player_id)) = Inr opponent' \<and>
           0 \<le> shield_hp opponent' \<and>
           (shield_hp opponent \<le> 0 \<longrightarrow> shield_hp opponent' = 0) \<and>
           (0 < shield_hp opponent \<longrightarrow> shield_hp opponent' \<le> shield_hp opponent)"
proof -
  let ?total = "total_damage player action_type (ev_hit data)"
  obtain gs' where run: "perform_action gs player_id action_type data = Inr gs'"
    and opp: "gs_get gs' (opponent_key_of (player_key_of player_id)) =
                Inr (resolve_opponent opponent ?total)"
    using perform_action_valid [OF assms(1,2)] by blast
  have "0 \<le> shield_hp (resolve_opponent opponent ?total)"
    by (auto simp: resolve_opponent_def apply_shield_def apply_hp_def respawn_def Let_def)
  moreover have "shield_hp opponent \<le> 0 \<longrightarrow> shield_hp (resolve_opponent opponent ?total) = 0"
    by (auto simp: resolve_opponent_def apply_shield_def apply_hp_def respawn_def Let_def)
  moreover have "0 < shield_hp opponent \<longrightarrow>
      shield_hp (resolve_opponent opponent ?total) \<le> shield_hp opponent"
    by (auto simp: resolve_opponent_def apply_shield_def apply_hp_def respawn_def Let_def)
  ultimately show ?thesis using run opp by blast
qed

text \<open>
  With player 2 at \<^verbatim>\<open>shield_hp\<close> -3, the \<^verbatim>\<open>shield\<close> action of player 1 deals no
  damage and the opponent's \<^verbatim>\<open>shield_hp\<close> is 0 afterwards; with player 2 at
  \<^verbatim>\<open>shield_hp\<close> 10, a gun shot of player 1 leaves it between 0 and 10.
\<close>

theorem shield_hp_nonneg_after_witness:
  "gs_get broken_shield_state (player_key_of (IdInt 1)) = Inr (p1 broken_shield_state) \<and>
   gs_get broken_shield_state (opponent_key_of (player_key_of (IdInt 1))) =
     Inr (p2 broken_shield_state) \<and>
   shield_hp (p2 broken_shield_state) \<le> 0 \<and>
   total_damage (p1 broken_shield_state) (Some ''shield'')
     (ev_hit (action_event (IdInt 1) ''shield'')) = 0 \<and>
   (\<exists>gs' opponent'.
      perform_action broken_shield_state (IdInt 1) (Some ''shield'')
        (action_event (IdInt 1) ''shield'') = Inr gs' \<and>
      gs_get gs' (opponent_key_of (player_key_of (IdInt 1))) = Inr opponent' \<and>
      shield_hp opponent' = 0) \<and>
   0 < shield_hp (p2 shielded_state) \<and>
   (\<exists>gs' opponent'.
      perform_action shielded_state (IdInt 1) (Some ''gun'') (action_event (IdInt 1) ''gun'') =
        Inr gs' \<and>
      gs_get gs' (opponent_key_of (player_key_of (IdInt 1))) = Inr opponent' \<and>
      0 \<le> shield_hp opponent' \<and> shield_hp opponent' \<le> shield_hp (p2 shielded_state))"
proof -
  have neg: "shield_hp (p2 broken_shield_state) \<le> 0"
    by (simp add: example_defs)
  have zero: "total_damage (p1 broken_shield_state) (Some ''shield'')
     (ev_hit (action_event (IdInt 1) ''shield'')) = 0"
    by (simp add: example_defs stage_defs)
  have pos: "0 < shield_hp (p2 shielded_state)"
    by (simp add: example_defs)
  have a: "\<exists>gs' opponent'.
      perform_action broken_shield_state (IdInt 1) (Some ''shield'')
        (action_event (IdInt 1) ''shield'') = Inr gs' \<and>
      gs_get gs' (opponent_key_of (player_key_of (IdInt 1))) = Inr opponent' \<and>
      shield_hp opponent' = 0"
    using shield_hp_nonneg_after [OF lookup_1 lookup_opp_1, of broken_shield_state
        "Some ''shield''" "action_event (IdInt 1) ''shield''"] neg
    by blast
  have b: "\<exists>gs' opponent'.
      perform_action shielded_state (IdInt 1) (Some ''gun'') (action_event (IdInt 1) ''gun'') =
        Inr gs' \<and>
      gs_get gs' (opponent_key_of (player_key_of (IdInt 1))) = Inr opponent' \<and>
      0 \<le> shield_hp opponent' \<and> shield_hp opponent' \<le> shield_hp (p2 shielded_state)"
    using shield_hp_nonneg_after [OF lookup_1 lookup_opp_1, of shielded_state
        "Some ''gun''" "action_event (IdInt 1) ''gun''"] pos
    by blast
  show ?thesis
    by (intro conjI lookup_1 lookup_opp_1 neg zero a pos b)
qed

end
